theory Spec2Isabelle
  imports Complex_Main "HOL-Library.Multiset" "HOL-Library.Option_ord"
begin

section \<open>Load-balance fairness metrics (scripts/load\_balance\_analyzer.py)\<close>

text \<open>
  The data frame read from the load-balance log is a list of rows with the four columns the
  loader requires. The loader checks the column names only, so a cell is an integer or
  blank: \<open>pd.read_csv\<close> reads a blank cell as \<open>nan\<close>, here \<open>None\<close>. Python integers are
  unbounded (\<open>int\<close>, and \<open>nat\<close> for counts and lengths). Floating-point results are modelled
  as exact real numbers; the one non-finite result the code can store, \<open>float('inf')\<close>, is
  the constructor \<open>PInf\<close>. Cells that are not numbers are outside the model.
\<close>

record request =
  LocalXpuId :: "int option"
  DestXpuId :: "int option"
  VcId :: "int option"
  SueId :: "int option"

type_synonym dataframe = "request list"

datatype py_error = ValueError

datatype pyfloat = Fin real | PInf

text \<open>
  Equality of two cells as \<open>==\<close> computes it: \<open>nan\<close> is equal to nothing, not even to
  itself.
\<close>

fun cell_eq :: "int option \<Rightarrow> int option \<Rightarrow> bool" where
  "cell_eq (Some a) (Some b) = (a = b)"
| "cell_eq a b = False"

text \<open>
  \<open>series.value_counts().sort_index()\<close>: \<open>value_counts\<close> leaves the blank cells out
  (\<open>dropna=True\<close> is its default); the result has one entry per distinct value of the other
  cells, with the number of rows holding it, in ascending order of the value.
\<close>

definition dropna :: "int option list \<Rightarrow> int list" where
  "dropna col = map the (filter (\<lambda>c. c \<noteq> None) col)"

definition value_counts_sort_index :: "int option list \<Rightarrow> (int \<times> nat) list" where
  "value_counts_sort_index col =
     map (\<lambda>v. (v, count_list (dropna col) v)) (sort (remdups (dropna col)))"

text \<open>
  \<open>np.mean\<close> and \<open>np.std\<close> (population standard deviation, \<open>ddof = 0\<close>) of an integer
  array. On an empty array numpy returns \<open>nan\<close> with a warning, and every comparison with
  \<open>nan\<close> is false; here the value on \<open>[]\<close> is \<open>0\<close>, for which the guards \<open>> 0\<close> of the
  caller are false as well.
\<close>

definition np_mean :: "nat list \<Rightarrow> real" where
  "np_mean xs = real (sum_list xs) / real (length xs)"

definition np_std :: "nat list \<Rightarrow> real" where
  "np_std xs = sqrt (sum_list (map (\<lambda>x. (real x - np_mean xs)\<^sup>2) xs) / real (length xs))"

text \<open>\<open>np.max\<close> and \<open>np.min\<close> raise \<open>ValueError\<close> on an empty array.\<close>

fun np_max :: "nat list \<Rightarrow> py_error + nat" where
  "np_max [] = Inl ValueError"
| "np_max (x # xs) = Inr (fold max xs x)"

fun np_min :: "nat list \<Rightarrow> py_error + nat" where
  "np_min [] = Inl ValueError"
| "np_min (x # xs) = Inr (fold min xs x)"

record metrics =
  total_requests :: nat
  num_sues :: nat
  ideal_per_sue :: real
  cv :: real
  max_min_ratio :: pyfloat
  rsd :: real
  sue_counts :: "(int \<times> nat) list"

text \<open>
  The body of the loop of \<open>calculate_load_balance_metrics\<close> for one key \<open>local_xpu\<close>.
  \<open>total_requests\<close> is the number of all rows of the group, \<open>num_sues\<close> the number of
  entries of \<open>sue_counts\<close>. The conditional expressions are evaluated in the source's
  order: the coefficient of variation first, then the max/min ratio, whose test
  \<open>np.min(actual_counts) > 0\<close> raises on an empty array, then the relative standard
  deviation.
\<close>

definition xpu_metrics :: "dataframe \<Rightarrow> int option \<Rightarrow> py_error + metrics" where
  "xpu_metrics df local_xpu =
    (let xpu_data = filter (\<lambda>r. cell_eq (LocalXpuId r) local_xpu) df;
         counts = value_counts_sort_index (map SueId xpu_data);
         total = length xpu_data;
         n = length counts;
         ideal = (if n > 0 then real total / real n else 0);
         actual_counts = map snd counts;
         cv' = (if np_mean actual_counts > 0
                then np_std actual_counts / np_mean actual_counts else 0)
     in case np_min actual_counts of
          Inl e \<Rightarrow> Inl e
        | Inr mn \<Rightarrow>
           (case (if mn > 0 then np_max actual_counts else Inr 0) of
              Inl e \<Rightarrow> Inl e
            | Inr mx \<Rightarrow>
               (let ratio = (if mn > 0 then Fin (real mx / real mn) else PInf);
                    rsd' = (if ideal > 0 then (np_std actual_counts / ideal) * 100 else 0)
                in Inr \<lparr> total_requests = total, num_sues = n, ideal_per_sue = ideal,
                         cv = cv', max_min_ratio = ratio, rsd = rsd',
                         sue_counts = counts \<rparr>)))"

text \<open>
  The loop over \<open>sorted(df['LocalXpuId'].unique())\<close>; the dictionary it fills is the
  association list of its entries in insertion order. An exception in one iteration ends
  the loop and the function. \<open>unique\<close> keeps one \<open>nan\<close> when the column has blank cells.
  \<open>sorted\<close> compares with \<open><\<close>, which is false for \<open>nan\<close>, so where the keys stand in
  its result then depends on the order of the rows; the model puts the blank key first. The
  group of the blank key is empty and its iteration raises \<open>ValueError\<close>, the only
  exception the loop can raise, so the function raises \<open>ValueError\<close> wherever the blank
  key stands.
\<close>

fun metrics_loop ::
  "dataframe \<Rightarrow> int option list \<Rightarrow> py_error + (int option \<times> metrics) list" where
  "metrics_loop df [] = Inr []"
| "metrics_loop df (x # xs) =
     (case xpu_metrics df x of
        Inl e \<Rightarrow> Inl e
      | Inr m \<Rightarrow> (case metrics_loop df xs of
                   Inl e \<Rightarrow> Inl e
                 | Inr ms \<Rightarrow> Inr ((x, m) # ms)))"

definition calculate_load_balance_metrics ::
  "dataframe \<Rightarrow> py_error + (int option \<times> metrics) list" where
  "calculate_load_balance_metrics df = metrics_loop df (sort (remdups (map LocalXpuId df)))"

text \<open>
  The overall fairness score of \<open>create_fairness_analysis\<close>. Python's \<open>max(0, x)\<close> is \<open>x\<close>
  when \<open>x > 0\<close> and \<open>0\<close> otherwise. For an infinite ratio the floating-point evaluation is
  \<open>inf - 1 = inf\<close>, \<open>inf * 50 = inf\<close>, \<open>100 - inf = -inf\<close> and \<open>max(0, -inf) = 0\<close>.
\<close>

definition cv_score :: "metrics \<Rightarrow> real" where
  "cv_score m = max 0 (100 - cv m * 500)"

definition rsd_score :: "metrics \<Rightarrow> real" where
  "rsd_score m = max 0 (100 - rsd m * 2.5)"

definition ratio_score :: "metrics \<Rightarrow> real" where
  "ratio_score m = (case max_min_ratio m of
                      Fin r \<Rightarrow> max 0 (100 - (r - 1) * 50)
                    | PInf \<Rightarrow> 0)"

definition overall_score :: "metrics \<Rightarrow> real" where
  "overall_score m = (cv_score m + rsd_score m + ratio_score m) / 3"

definition fairness_scores :: "(int option \<times> metrics) list \<Rightarrow> real list" where
  "fairness_scores ms = map (\<lambda>xpu. overall_score (the (map_of ms xpu))) (sort (map fst ms))"

section \<open>Packet-loss computation (scripts/loss\_analyzer.py)\<close>

text \<open>
  The log is opened in text mode: it is the list of its lines, each a Python string, that
  is a list of Unicode code points. \<open>ascii\<close> turns a literal into such a string.
  \<open>pat in line\<close> is the substring test.
\<close>

type_synonym pystr = "nat list"

definition ascii :: "string \<Rightarrow> pystr" where
  "ascii s = map of_char s"

fun contains :: "pystr \<Rightarrow> pystr \<Rightarrow> bool" where
  "contains pat [] = (pat = [])"
| "contains pat (c # s) = (take (length pat) (c # s) = pat \<or> contains pat s)"

text \<open>
  In a string pattern \<open>\d\<close> matches every Unicode decimal digit, and \<open>int\<close> converts a
  string of such digits. Which code points are decimal digits, and their values, is a table
  of the Python runtime; the model takes it as the parameter \<open>dv\<close>: \<open>dv c\<close> is the value of
  the code point \<open>c\<close> when \<open>c\<close> is a decimal digit and \<open>None\<close> otherwise.
\<close>

type_synonym digit_table = "nat \<Rightarrow> nat option"

definition is_digit :: "digit_table \<Rightarrow> nat \<Rightarrow> bool" where
  "is_digit dv c = (dv c \<noteq> None)"

definition int_of_digits :: "digit_table \<Rightarrow> pystr \<Rightarrow> int" where
  "int_of_digits dv ds = foldl (\<lambda>a c. 10 * a + int (the (dv c))) 0 ds"

text \<open>
  \<open>re.search(r'KW (\d+) packets', line)\<close> returns the leftmost match. \<open>\d+\<close> is greedy and
  the character after it must be a space, which is no digit, so the digits of a match at a
  position are the longest run of digits after the keyword.
\<close>

definition match_here :: "digit_table \<Rightarrow> pystr \<Rightarrow> pystr \<Rightarrow> int option" where
  "match_here dv kw s =
     (if take (length kw) s = kw then
        (let rest = drop (length kw) s;
             ds = takeWhile (is_digit dv) rest;
             after = dropWhile (is_digit dv) rest
         in if ds \<noteq> [] \<and> take 8 after = ascii '' packets''
            then Some (int_of_digits dv ds) else None)
      else None)"

fun re_search :: "digit_table \<Rightarrow> pystr \<Rightarrow> pystr \<Rightarrow> int option" where
  "re_search dv kw [] = match_here dv kw []"
| "re_search dv kw (c # s) =
     (case match_here dv kw (c # s) of Some n \<Rightarrow> Some n | None \<Rightarrow> re_search dv kw s)"

text \<open>One iteration of the loop over the lines: the running totals sent, received, dropped.\<close>

definition process_line ::
  "digit_table \<Rightarrow> int \<times> int \<times> int \<Rightarrow> pystr \<Rightarrow> int \<times> int \<times> int" where
  "process_line dv t line =
     (case t of (total_sent, total_received, total_dropped) \<Rightarrow>
        if contains (ascii ''Summary: Sent'') line then
          (case re_search dv (ascii ''Sent '') line of
             Some n \<Rightarrow> (total_sent + n, total_received, total_dropped)
           | None \<Rightarrow> t)
        else if contains (ascii ''Received'') line \<and> contains (ascii ''Port'') line then
          (case re_search dv (ascii ''Received '') line of
             Some n \<Rightarrow> (total_sent, total_received + n, total_dropped)
           | None \<Rightarrow> t)
        else if contains (ascii ''Dropped'') line \<and> contains (ascii ''Port'') line then
          (case re_search dv (ascii ''Dropped '') line of
             Some n \<Rightarrow> (total_sent, total_received, total_dropped + n)
           | None \<Rightarrow> t)
        else t)"

definition scan_log :: "digit_table \<Rightarrow> pystr list \<Rightarrow> int \<times> int \<times> int" where
  "scan_log dv lines = foldl (process_line dv) (0, 0, 0) lines"

text \<open>
  \<open>calculate_packet_loss\<close> returns an error string when nothing was sent, and otherwise the
  three totals and the three rates (true division of integers, as reals).
\<close>

definition calculate_packet_loss ::
  "digit_table \<Rightarrow> pystr list \<Rightarrow> string + (int \<times> int \<times> int \<times> real \<times> real \<times> real)" where
  "calculate_packet_loss dv lines =
     (case scan_log dv lines of (total_sent, total_received, dropped0) \<Rightarrow>
        (let total_dropped = (if total_sent > total_received \<and> dropped0 = 0
                              then total_sent - total_received else dropped0)
         in if total_sent = 0 then Inl ''Error: No sent packet data found''
            else
              (let network_loss_rate =
                     real_of_int (total_sent - total_received) / real_of_int total_sent * 100;
                   receiver_loss_rate =
                     (if total_received = 0 then 0
                      else real_of_int total_dropped / real_of_int total_received * 100);
                   total_loss_rate =
                     real_of_int (total_sent - (total_received - total_dropped))
                       / real_of_int total_sent * 100
               in Inr (total_sent, total_received, total_dropped,
                       network_loss_rate, receiver_loss_rate, total_loss_rate))))"

section \<open>Chart and report generation in \<open>main\<close> (scripts/load\_balance\_analyzer.py)\<close>

text \<open>
  Steps 5 and 6 of \<open>main\<close>. The three chart functions and the report writer are taken as a
  parameter telling, for each artifact, whether writing it returns (\<open>None\<close>) or raises an
  exception. The three chart calls are the body of one \<open>try\<close> statement: the first
  exception leaves the body for the handler, which prints the error; the report is written
  after the \<open>try\<close> statement, outside of any handler.
\<close>

datatype artifact = BoxPlot | Heatmap | FairnessChart | Report

datatype py_exception = Exception string

datatype event = Saved artifact | ErrorPrinted py_exception

type_synonym renderer = "artifact \<Rightarrow> py_exception option"

fun try_body :: "renderer \<Rightarrow> artifact list \<Rightarrow> event list" where
  "try_body render [] = []"
| "try_body render (a # rest) =
     (case render a of
        None \<Rightarrow> Saved a # try_body render rest
      | Some e \<Rightarrow> [ErrorPrinted e])"

definition main_outputs :: "renderer \<Rightarrow> py_exception + event list" where
  "main_outputs render =
     (let charts = try_body render [BoxPlot, Heatmap, FairnessChart]
      in case render Report of
           None \<Rightarrow> Inr (charts @ [Saved Report])
         | Some e \<Rightarrow> Inl e)"

fun box_plot_fails :: renderer where
  "box_plot_fails BoxPlot = Some (Exception ''boxplot'')"
| "box_plot_fails a = None"

section \<open>Notions used in the statements and proofs\<close>

text \<open>
  The rows of one key, the per-target counts of that group in ascending order of the target
  id, the list of keys the loop visits, and the record the loop body computes for a key
  whose group has at least one counted target.
\<close>

definition group_rows :: "dataframe \<Rightarrow> int option \<Rightarrow> request list" where
  "group_rows df k = filter (\<lambda>r. cell_eq (LocalXpuId r) k) df"

text \<open>The rows of the group whose target cell is not blank: the rows that are counted.\<close>

definition counted_rows :: "dataframe \<Rightarrow> int option \<Rightarrow> request list" where
  "counted_rows df k = filter (\<lambda>r. SueId r \<noteq> None) (group_rows df k)"

definition group_counts :: "dataframe \<Rightarrow> int option \<Rightarrow> nat list" where
  "group_counts df k = map snd (value_counts_sort_index (map SueId (group_rows df k)))"

definition present_metrics :: "dataframe \<Rightarrow> int option \<Rightarrow> metrics" where
  "present_metrics df k =
     \<lparr> total_requests = length (group_rows df k),
       num_sues = length (group_counts df k),
       ideal_per_sue = real (length (group_rows df k)) / real (length (group_counts df k)),
       cv = np_std (group_counts df k) / np_mean (group_counts df k),
       max_min_ratio = Fin (real (Max (set (group_counts df k))) / real (Min (set (group_counts df k)))),
       rsd = (np_std (group_counts df k) / (real (length (group_rows df k)) / real (length (group_counts df k)))) * 100,
       sue_counts = value_counts_sort_index (map SueId (group_rows df k)) \<rparr>"

definition local_xpus :: "dataframe \<Rightarrow> int option list" where
  "local_xpus df = sort (remdups (map LocalXpuId df))"

text \<open>A row of an integer local XPU, destination, virtual channel and target.\<close>

definition row :: "int \<Rightarrow> int \<Rightarrow> int \<Rightarrow> int \<Rightarrow> request" where
  "row l d v s = \<lparr>LocalXpuId = Some l, DestXpuId = Some d, VcId = Some v, SueId = Some s\<rparr>"

text \<open>The same with a blank target cell.\<close>

definition row_blank_sue :: "int \<Rightarrow> int \<Rightarrow> int \<Rightarrow> request" where
  "row_blank_sue l d v = \<lparr>LocalXpuId = Some l, DestXpuId = Some d, VcId = Some v, SueId = None\<rparr>"

section \<open>Example inputs\<close>

text \<open>A data frame with two local XPUs; local XPU 1 sends twice to target 7 and once to 5.\<close>

definition df_two :: dataframe where
  "df_two = [row 1 2 0 7, row 1 3 1 5, row 1 2 0 7, row 0 1 0 5]"

text \<open>
  A skewed data frame: local XPU 4 sends nine requests to target 0 and one to target 1.
\<close>

definition df_skewed :: dataframe where
  "df_skewed = replicate 9 (row 4 0 0 0) @ [row 4 1 0 1]"

text \<open>
  An even data frame: local XPU 1 sends two requests to each of the targets 10, 11 and 12,
  and local XPU 3 has a single target.
\<close>

definition df_fair :: dataframe where
  "df_fair = [row 1 2 0 10, row 1 3 1 11, row 1 2 0 12,
              row 1 3 0 10, row 1 2 1 11, row 1 3 0 12, row 3 1 0 10]"

text \<open>
  Data frames with blank target cells, as the lines \<open>1,2,0,5\<close> / \<open>1,2,0,\<close> / \<open>1,2,0,5\<close>, the
  lines \<open>1,2,0,5\<close> / \<open>1,2,0,5\<close> / \<open>1,2,0,7\<close> / \<open>1,2,0,\<close> and the lines \<open>1,2,0,\<close> /
  \<open>0,2,0,5\<close> of a log give them.
\<close>

definition df_blank_one :: dataframe where
  "df_blank_one = [row 1 2 0 5, row_blank_sue 1 2 0, row 1 2 0 5]"

definition df_blank_uneven :: dataframe where
  "df_blank_uneven = [row 1 2 0 5, row 1 2 0 5, row 1 2 0 7, row_blank_sue 1 2 0]"

definition df_blank_group :: dataframe where
  "df_blank_group = [row_blank_sue 1 2 0, row 0 2 0 5]"

text \<open>
  The digits of the table that the example logs need: the ASCII digits and the
  Arabic-Indic digits U+0660 to U+0669. Every other code point of the example logs is no
  digit.
\<close>

definition example_digits :: digit_table where
  "example_digits c = (if 48 \<le> c \<and> c \<le> 57 then Some (c - 48)
                       else if 1632 \<le> c \<and> c \<le> 1641 then Some (c - 1632)
                       else None)"

text \<open>
  Three logs: in the first the ports report no drop although three packets are missing, in
  the second a port reports one dropped packet, the third is the single line
  \<open>Summary: Sent 3 packets\<close> with the Arabic-Indic digit three.
\<close>

definition log_switch_loss :: "pystr list" where
  "log_switch_loss = [ascii ''XPU0 Summary: Sent 10 packets'',
                      ascii ''Port 1 Received 7 packets'',
                      ascii ''Port 1 Dropped 0 packets'']"

definition log_receiver_drop :: "pystr list" where
  "log_receiver_drop = [ascii ''XPU0 Summary: Sent 10 packets'',
                        ascii ''Port 1 Received 8 packets'',
                        ascii ''Port 2 Dropped 1 packets'']"

definition log_arabic_digit :: "pystr list" where
  "log_arabic_digit = [ascii ''Summary: Sent '' @ [1635] @ ascii '' packets'']"

text \<open>
  Two renderers: with the first the box plot raises (in the section on \<open>main\<close> above),
  with the second the heatmap does.
\<close>

fun heatmap_fails :: renderer where
  "heatmap_fails Heatmap = Some (Exception ''heatmap'')"
| "heatmap_fails a = None"

section \<open>Properties of the fairness metrics\<close>

subsection \<open>Counting and the numpy reductions\<close>

lemma np_min_nonempty: "xs \<noteq> [] \<Longrightarrow> np_min xs = Inr (Min (set xs))"
  by (cases xs) (simp_all add: Min.set_eq_fold del: set_simps)

lemma np_max_nonempty: "xs \<noteq> [] \<Longrightarrow> np_max xs = Inr (Max (set xs))"
  by (cases xs) (simp_all add: Max.set_eq_fold del: set_simps)

lemma dropna_Nil: "dropna col = [] \<longleftrightarrow> (\<forall>c \<in> set col. c = None)"
  by (auto simp: dropna_def filter_empty_conv)

lemma length_dropna: "length (dropna col) = length (filter (\<lambda>c. c \<noteq> None) col)"
  by (simp add: dropna_def)

lemma vc_counts:
  "map snd (value_counts_sort_index col)
     = map (count_list (dropna col)) (sort (remdups (dropna col)))"
  by (simp add: value_counts_sort_index_def comp_def)

lemma vc_Nil: "value_counts_sort_index col = [] \<longleftrightarrow> dropna col = []"
proof -
  have "value_counts_sort_index col = [] \<longleftrightarrow> set (sort (remdups (dropna col))) = {}"
    unfolding value_counts_sort_index_def by (simp del: set_sort set_remdups)
  then show ?thesis by simp
qed

lemma vc_sum: "sum_list (map snd (value_counts_sort_index col)) = length (dropna col)"
proof -
  let ?d = "dropna col"
  have "sum_list (map (count_list ?d) (sort (remdups ?d)))
          = sum (count_list ?d) (set (sort (remdups ?d)))"
    by (rule sum_list_distinct_conv_sum_set) simp
  also have "\<dots> = length ?d"
    by (simp add: sum_count_set)
  finally show ?thesis by (simp add: vc_counts)
qed

lemma vc_pos: "c \<in> set (map snd (value_counts_sort_index col)) \<Longrightarrow> 1 \<le> c"
proof -
  assume "c \<in> set (map snd (value_counts_sort_index col))"
  then obtain v where v: "v \<in> set (dropna col)" and c: "c = count_list (dropna col) v"
    by (auto simp: vc_counts)
  from v have "count_list (dropna col) v \<noteq> 0" by (simp add: count_list_0_iff)
  with c show ?thesis by simp
qed

subsection \<open>The group of a key\<close>

lemma length_counted_le: "length (counted_rows df k) \<le> length (group_rows df k)"
  by (simp add: counted_rows_def)

lemma length_filter_all:
  "length (filter P xs) = length xs \<longleftrightarrow> (\<forall>x \<in> set xs. P x)"
proof (induction xs)
  case Nil
  show ?case by simp
next
  case (Cons x xs)
  from Cons show ?case
    using length_filter_le[of P xs] by (auto simp del: length_filter_le)
qed

lemma counted_all:
  "length (counted_rows df k) = length (group_rows df k)
     \<longleftrightarrow> (\<forall>r \<in> set (group_rows df k). SueId r \<noteq> None)"
  unfolding counted_rows_def by (rule length_filter_all)

lemma group_counts_sum: "sum_list (group_counts df k) = length (counted_rows df k)"
  by (simp add: group_counts_def vc_sum length_dropna counted_rows_def filter_map comp_def)

lemma group_counts_Nil: "group_counts df k = [] \<longleftrightarrow> counted_rows df k = []"
proof -
  have "group_counts df k = [] \<longleftrightarrow> dropna (map SueId (group_rows df k)) = []"
    by (simp add: group_counts_def vc_Nil)
  also have "\<dots> \<longleftrightarrow> (\<forall>r \<in> set (group_rows df k). SueId r = None)"
    by (simp add: dropna_Nil)
  also have "\<dots> \<longleftrightarrow> counted_rows df k = []"
    by (simp add: counted_rows_def filter_empty_conv)
  finally show ?thesis .
qed

lemma group_counts_pos: "c \<in> set (group_counts df k) \<Longrightarrow> 1 \<le> c"
  unfolding group_counts_def by (rule vc_pos)

lemma group_rows_None: "group_rows df None = []"
  by (simp add: group_rows_def)

lemma group_counts_None: "group_counts df None = []"
  by (simp add: group_counts_def group_rows_None value_counts_sort_index_def dropna_def)

lemma group_rows_nonempty: "group_counts df k \<noteq> [] \<Longrightarrow> group_rows df k \<noteq> []"
  by (auto simp: group_counts_Nil counted_rows_def)

subsection \<open>The loop body and the loop\<close>

lemma np_mean_pos:
  assumes "xs \<noteq> []" and "\<And>c. c \<in> set xs \<Longrightarrow> 1 \<le> c"
  shows "0 < np_mean xs"
proof -
  obtain y ys where xs: "xs = y # ys" using assms(1) by (cases xs) auto
  have "1 \<le> y" using assms(2) xs by simp
  then have "0 < sum_list xs" using xs by simp
  then show ?thesis using assms(1) by (simp add: np_mean_def)
qed

lemma np_std_nonneg: "0 \<le> np_std xs"
  unfolding np_std_def by (intro real_sqrt_ge_zero divide_nonneg_nonneg sum_list_nonneg) auto

lemma counts_Min_pos:
  fixes xs :: "nat list"
  assumes "xs \<noteq> []" and "\<And>c. c \<in> set xs \<Longrightarrow> 1 \<le> c"
  shows "0 < Min (set xs)"
proof -
  have "\<forall>a\<in>set xs. 0 < a" using assms(2) by (fastforce simp: Suc_le_eq)
  then show ?thesis using assms(1) by simp
qed

lemma group_counts_mean_pos: "group_counts df k \<noteq> [] \<Longrightarrow> 0 < np_mean (group_counts df k)"
proof (rule np_mean_pos)
  assume "group_counts df k \<noteq> []"
  then show "group_counts df k \<noteq> []" .
next
  fix c assume "c \<in> set (group_counts df k)"
  then show "1 \<le> c" by (rule group_counts_pos)
qed

lemma group_counts_Min_pos: "group_counts df k \<noteq> [] \<Longrightarrow> 0 < Min (set (group_counts df k))"
proof (rule counts_Min_pos)
  assume "group_counts df k \<noteq> []"
  then show "group_counts df k \<noteq> []" .
next
  fix c assume "c \<in> set (group_counts df k)"
  then show "1 \<le> c" by (rule group_counts_pos)
qed

lemma xpu_metrics_empty:
  "group_counts df k = [] \<Longrightarrow> xpu_metrics df k = Inl ValueError"
  by (simp add: xpu_metrics_def Let_def group_counts_def group_rows_def)

lemma xpu_metrics_present:
  assumes ne: "group_counts df k \<noteq> []"
  shows "xpu_metrics df k = Inr (present_metrics df k)"
proof -
  let ?c = "group_counts df k"
  have mean: "0 < np_mean ?c" using ne by (rule group_counts_mean_pos)
  have mn: "np_min ?c = Inr (Min (set ?c))" using ne by (rule np_min_nonempty)
  have mx: "np_max ?c = Inr (Max (set ?c))" using ne by (rule np_max_nonempty)
  have minpos: "0 < Min (set ?c)" using ne by (rule group_counts_Min_pos)
  have len: "0 < length ?c" using ne by simp
  have rows: "0 < length (group_rows df k)" using group_rows_nonempty[OF ne] by simp
  have len': "length (value_counts_sort_index (map SueId (group_rows df k))) = length ?c"
    by (simp add: group_counts_def)
  have ideal: "0 < real (length (group_rows df k)) / real (length ?c)"
    using len rows by simp
  show ?thesis
    unfolding present_metrics_def xpu_metrics_def Let_def group_rows_def[symmetric] group_counts_def[symmetric] len'
    using mean mn mx minpos len ideal by simp
qed

lemma metrics_loop_eq:
  "metrics_loop df ks =
     (if \<forall>k \<in> set ks. group_counts df k \<noteq> []
      then Inr (map (\<lambda>k. (k, present_metrics df k)) ks)
      else Inl ValueError)"
proof (induction ks)
  case Nil
  show ?case by simp
next
  case (Cons k ks)
  show ?case
  proof (cases "group_counts df k = []")
    case True
    then show ?thesis by (simp add: xpu_metrics_empty)
  next
    case False
    then show ?thesis by (simp add: xpu_metrics_present Cons)
  qed
qed

lemma set_local_xpus: "set (local_xpus df) = LocalXpuId ` set df"
  by (simp add: local_xpus_def)

lemma distinct_local_xpus: "distinct (local_xpus df)"
  by (simp add: local_xpus_def)

lemma sorted_local_xpus: "sorted (local_xpus df)"
  by (simp add: local_xpus_def)

lemma calculate_eq:
  "calculate_load_balance_metrics df =
     (if \<forall>k \<in> LocalXpuId ` set df. group_counts df k \<noteq> []
      then Inr (map (\<lambda>k. (k, present_metrics df k)) (local_xpus df))
      else Inl ValueError)"
  unfolding calculate_load_balance_metrics_def local_xpus_def[symmetric] metrics_loop_eq
  by (simp only: set_local_xpus)

lemma calculate_error: "calculate_load_balance_metrics df = Inl e \<Longrightarrow> e = ValueError"
  by (cases e) simp

lemma calculate_entry:
  assumes "calculate_load_balance_metrics df = Inr ms" and "(k, m) \<in> set ms"
  shows "k \<in> LocalXpuId ` set df \<and> group_counts df k \<noteq> [] \<and> m = present_metrics df k"
  using assms by (auto simp: calculate_eq set_local_xpus split: if_splits)

lemma calculate_keys:
  assumes "calculate_load_balance_metrics df = Inr ms"
  shows "map fst ms = local_xpus df"
  using assms by (auto simp: calculate_eq comp_def split: if_splits)

lemma calculate_returns_iff:
  "(\<exists>ms. calculate_load_balance_metrics df = Inr ms)
     \<longleftrightarrow> (\<forall>r \<in> set df. \<exists>r' \<in> set df. cell_eq (LocalXpuId r') (LocalXpuId r) \<and> SueId r' \<noteq> None)"
proof -
  have "\<And>k. group_counts df k \<noteq> []
          \<longleftrightarrow> (\<exists>r' \<in> set df. cell_eq (LocalXpuId r') k \<and> SueId r' \<noteq> None)"
    by (auto simp: group_counts_Nil counted_rows_def group_rows_def filter_empty_conv)
  then show ?thesis by (auto simp: calculate_eq)
qed

lemma calculate_returns:
  assumes "\<forall>r \<in> set df. LocalXpuId r \<noteq> None \<and> SueId r \<noteq> None"
  shows "\<exists>ms. calculate_load_balance_metrics df = Inr ms"
  unfolding calculate_returns_iff
proof
  fix r assume r: "r \<in> set df"
  with assms obtain x where "LocalXpuId r = Some x" and "SueId r \<noteq> None" by auto
  with r show "\<exists>r' \<in> set df. cell_eq (LocalXpuId r') (LocalXpuId r) \<and> SueId r' \<noteq> None"
    by (intro bexI[of _ r]) simp_all
qed

lemma present_counts: "map snd (sue_counts (present_metrics df k)) = group_counts df k"
  by (simp add: present_metrics_def group_counts_def)

lemma present_fields:
  "total_requests (present_metrics df k) = length (group_rows df k)"
  "num_sues (present_metrics df k) = length (group_counts df k)"
  "ideal_per_sue (present_metrics df k) = real (length (group_rows df k)) / real (length (group_counts df k))"
  "cv (present_metrics df k) = np_std (group_counts df k) / np_mean (group_counts df k)"
  "max_min_ratio (present_metrics df k) = Fin (real (Max (set (group_counts df k))) / real (Min (set (group_counts df k))))"
  "rsd (present_metrics df k) = (np_std (group_counts df k) / (real (length (group_rows df k)) / real (length (group_counts df k)))) * 100"
  by (simp_all add: present_metrics_def)

subsection \<open>The example data frames\<close>

lemma local_xpus_df_two: "local_xpus df_two = [Some 0, Some 1]"
  by (simp add: local_xpus_def df_two_def row_def)

lemma group_rows_df_two:
  "group_rows df_two (Some 1) = [row 1 2 0 7, row 1 3 1 5, row 1 2 0 7]"
  by (simp add: group_rows_def df_two_def row_def)

lemma counts_df_two:
  "value_counts_sort_index (map SueId (group_rows df_two (Some 1))) = [(5, 1), (7, 2)]"
  by (simp add: group_rows_df_two row_def value_counts_sort_index_def dropna_def)

lemma group_counts_df_two: "group_counts df_two (Some 1) = [1, 2]"
  by (simp add: group_counts_def counts_df_two)

lemma group_counts_df_two_0: "group_counts df_two (Some 0) \<noteq> []"
  by (simp add: group_counts_def group_rows_def df_two_def row_def value_counts_sort_index_def dropna_def)

lemma calculate_df_two:
  "calculate_load_balance_metrics df_two
     = Inr [(Some 0, present_metrics df_two (Some 0)), (Some 1, present_metrics df_two (Some 1))]"
proof -
  have "LocalXpuId ` set df_two = {Some 0, Some 1}" by (auto simp: df_two_def row_def)
  then show ?thesis
    by (simp add: calculate_eq local_xpus_df_two group_counts_df_two group_counts_df_two_0)
qed

lemma sue_counts_df_two: "map snd (sue_counts (present_metrics df_two (Some 1))) = [1, 2]"
  by (simp add: present_counts group_counts_df_two)

lemma np_mean_1_2: "np_mean [1, 2] = 3 / 2"
  by (simp add: np_mean_def)

lemma np_std_1_2: "np_std [1, 2] = 1 / 2"
proof -
  have "np_std [1, 2] = sqrt ((1 / 2)\<^sup>2)"
    unfolding np_std_def np_mean_1_2 by (simp add: power2_eq_square)
  then show ?thesis by (simp del: power_divide)
qed

lemma local_xpus_df_skewed: "local_xpus df_skewed = [Some 4]"
  by (simp add: local_xpus_def df_skewed_def row_def eval_nat_numeral)

lemma group_rows_df_skewed: "group_rows df_skewed (Some 4) = df_skewed"
  by (simp add: group_rows_def df_skewed_def row_def)

lemma counts_df_skewed: "value_counts_sort_index (map SueId df_skewed) = [(0, 9), (1, 1)]"
  by (simp add: value_counts_sort_index_def dropna_def df_skewed_def row_def eval_nat_numeral)

lemma np_mean_9_1: "np_mean [9, 1] = 5"
  by (simp add: np_mean_def)

lemma np_std_9_1: "np_std [9, 1] = 4"
proof -
  have "np_std [9, 1] = sqrt (4\<^sup>2)"
    unfolding np_std_def np_mean_9_1 by (simp add: power2_eq_square)
  then show ?thesis by simp
qed

lemma group_counts_df_skewed: "group_counts df_skewed (Some 4) = [9, 1]"
  by (simp add: group_counts_def group_rows_df_skewed counts_df_skewed)

lemma length_df_skewed: "length df_skewed = 10"
  by (simp add: df_skewed_def)

lemma present_df_skewed:
  "present_metrics df_skewed (Some 4) =
     \<lparr> total_requests = 10, num_sues = 2, ideal_per_sue = 5, cv = 4 / 5,
       max_min_ratio = Fin 9, rsd = 80, sue_counts = [(0, 9), (1, 1)] \<rparr>"
  unfolding present_metrics_def group_counts_df_skewed group_rows_df_skewed counts_df_skewed
    length_df_skewed np_mean_9_1 np_std_9_1
  by simp

lemma calculate_df_skewed:
  "calculate_load_balance_metrics df_skewed = Inr [(Some 4, present_metrics df_skewed (Some 4))]"
proof -
  have "LocalXpuId ` set df_skewed = {Some 4}" by (auto simp: df_skewed_def row_def)
  then show ?thesis
    by (simp add: calculate_eq local_xpus_df_skewed group_counts_df_skewed)
qed

lemma df_skewed_no_blank: "\<forall>r \<in> set df_skewed. LocalXpuId r \<noteq> None \<and> SueId r \<noteq> None"
  by (auto simp: df_skewed_def row_def)

lemma calculate_df_fair:
  "calculate_load_balance_metrics df_fair
     = Inr [(Some 1, present_metrics df_fair (Some 1)), (Some 3, present_metrics df_fair (Some 3))]"
proof -
  have i: "LocalXpuId ` set df_fair = {Some 1, Some 3}" by (auto simp: df_fair_def row_def)
  have a: "group_counts df_fair (Some 1) \<noteq> []"
    by (simp add: group_counts_def group_rows_def df_fair_def row_def value_counts_sort_index_def dropna_def)
  have b: "group_counts df_fair (Some 3) \<noteq> []"
    by (simp add: group_counts_def group_rows_def df_fair_def row_def value_counts_sort_index_def dropna_def)
  have l: "local_xpus df_fair = [Some 1, Some 3]"
    by (simp add: local_xpus_def df_fair_def row_def)
  show ?thesis by (simp add: calculate_eq i a b l)
qed

lemma sue_counts_df_fair:
  "sue_counts (present_metrics df_fair (Some 1)) = [(10, 2), (11, 2), (12, 2)]"
  by (simp add: present_metrics_def group_rows_def df_fair_def row_def value_counts_sort_index_def dropna_def)

subsection \<open>The overall fairness score\<close>

lemma present_cv_nonneg: "group_counts df k \<noteq> [] \<Longrightarrow> 0 \<le> cv (present_metrics df k)"
  using group_counts_mean_pos[of df k] np_std_nonneg[of "group_counts df k"]
  by (simp add: present_fields)

lemma present_rsd_nonneg: "group_counts df k \<noteq> [] \<Longrightarrow> 0 \<le> rsd (present_metrics df k)"
  using np_std_nonneg[of "group_counts df k"]
  by (simp add: present_fields)

lemma present_ratio_ge_1:
  assumes ne: "group_counts df k \<noteq> []"
  shows "\<exists>r. max_min_ratio (present_metrics df k) = Fin r \<and> 1 \<le> r"
proof -
  let ?c = "group_counts df k"
  have pos: "0 < Min (set ?c)" by (rule group_counts_Min_pos[OF ne])
  have le: "Min (set ?c) \<le> Max (set ?c)" using ne by (simp add: Min_le_iff)
  have "1 \<le> real (Max (set ?c)) / real (Min (set ?c))"
    using pos le by (simp add: le_divide_eq_1)
  then show ?thesis by (simp add: present_fields)
qed

lemma overall_score_bounds:
  assumes "0 \<le> cv m" and "0 \<le> rsd m" and "\<exists>r. max_min_ratio m = Fin r \<and> 1 \<le> r"
  shows "0 \<le> overall_score m \<and> overall_score m \<le> 100"
proof -
  have a: "0 \<le> cv_score m \<and> cv_score m \<le> 100" using assms(1) by (simp add: cv_score_def)
  have b: "0 \<le> rsd_score m \<and> rsd_score m \<le> 100" using assms(2) by (simp add: rsd_score_def)
  have c: "0 \<le> ratio_score m \<and> ratio_score m \<le> 100" using assms(3) by (auto simp: ratio_score_def)
  from a b c show ?thesis by (simp add: overall_score_def)
qed

lemma present_score_bounds:
  "group_counts df k \<noteq> [] \<Longrightarrow>
   0 \<le> overall_score (present_metrics df k) \<and> overall_score (present_metrics df k) \<le> 100"
  by (intro overall_score_bounds present_cv_nonneg present_rsd_nonneg present_ratio_ge_1)

lemma fairness_scores_table:
  assumes "sorted ks" and "distinct ks"
  shows "fairness_scores (map (\<lambda>x. (x, f x)) ks) = map (\<lambda>x. overall_score (f x)) ks"
proof -
  have s: "sort ks = ks" using assms(1) by (simp add: sort_key_id_if_sorted)
  have "\<And>x. x \<in> set ks \<Longrightarrow> map_of (map (\<lambda>k. (k, f k)) ks) x = Some (f x)"
    by (simp add: map_of_map_restrict)
  then show ?thesis
    by (simp add: fairness_scores_def comp_def s)
qed

lemma score_df_skewed: "overall_score (present_metrics df_skewed (Some 4)) = 0"
  unfolding present_df_skewed
  by (simp add: overall_score_def cv_score_def rsd_score_def ratio_score_def)

text \<open>
  Claim C1. Whenever the metrics are computed, there is one overall fairness score per
  metrics record and every score lies between \<open>0\<close> and \<open>100\<close>, however far the coefficient
  of variation, the relative standard deviation or the ratio exceed the thresholds of their
  sub-scores. The metrics are computed for every data frame without blank local XPU and
  target cells.
\<close>

theorem composite_score_bounded:
  "(\<forall>ms. calculate_load_balance_metrics df = Inr ms \<longrightarrow>
        length (fairness_scores ms) = length ms
      \<and> (\<forall>s \<in> set (fairness_scores ms). 0 \<le> s \<and> s \<le> 100))
   \<and> ((\<forall>r \<in> set df. LocalXpuId r \<noteq> None \<and> SueId r \<noteq> None) \<longrightarrow>
        (\<exists>ms. calculate_load_balance_metrics df = Inr ms))"
proof (intro conjI allI impI)
  fix ms assume c: "calculate_load_balance_metrics df = Inr ms"
  let ?ms = "map (\<lambda>k. (k, present_metrics df k)) (local_xpus df)"
  from c have ne: "\<forall>k \<in> LocalXpuId ` set df. group_counts df k \<noteq> []"
    by (simp add: calculate_eq split: if_splits)
  from c have ms: "ms = ?ms" by (simp add: calculate_eq split: if_splits)
  have f: "fairness_scores ?ms = map (\<lambda>k. overall_score (present_metrics df k)) (local_xpus df)"
    by (rule fairness_scores_table) (rule sorted_local_xpus distinct_local_xpus)+
  show "length (fairness_scores ms) = length ms" unfolding ms f by simp
  show "\<forall>s \<in> set (fairness_scores ms). 0 \<le> s \<and> s \<le> 100"
    unfolding ms f using present_score_bounds[of df] ne by (auto simp: set_local_xpus)
next
  assume "\<forall>r \<in> set df. LocalXpuId r \<noteq> None \<and> SueId r \<noteq> None"
  then show "\<exists>ms. calculate_load_balance_metrics df = Inr ms" by (rule calculate_returns)
qed

theorem composite_score_bounded_witness:
  "None \<notin> LocalXpuId ` set df_skewed \<and> None \<notin> SueId ` set df_skewed
   \<and> (\<exists>ms. calculate_load_balance_metrics df_skewed = Inr ms
          \<and> fairness_scores ms = [0]
          \<and> (\<forall>s \<in> set (fairness_scores ms). 0 \<le> s \<and> s \<le> 100))"
proof -
  let ?ms = "[(Some 4, present_metrics df_skewed (Some 4))]"
  from composite_score_bounded[of df_skewed] df_skewed_no_blank
  obtain ms where c: "calculate_load_balance_metrics df_skewed = Inr ms" by blast
  then have ms: "ms = ?ms" by (simp add: calculate_df_skewed)
  have f: "fairness_scores ms = [0]"
    unfolding ms by (simp add: fairness_scores_def score_df_skewed)
  from composite_score_bounded[of df_skewed] c
  have b: "\<forall>s \<in> set (fairness_scores ms). 0 \<le> s \<and> s \<le> 100" by blast
  have n: "None \<notin> LocalXpuId ` set df_skewed \<and> None \<notin> SueId ` set df_skewed"
    using df_skewed_no_blank by force
  from c f b n show ?thesis by blast
qed

subsection \<open>Coefficient of variation\<close>

text \<open>
  Claim C3. For every local XPU with a metrics record, the coefficient of variation is the
  population standard deviation of the per-target counts divided by their mean, and it is
  \<open>0\<close> when that mean is \<open>0\<close>.
\<close>

theorem cv_is_std_over_mean:
  assumes "calculate_load_balance_metrics df = Inr ms" and "(x, m) \<in> set ms"
  shows "cv m = (if np_mean (map snd (sue_counts m)) = 0 then 0
                 else np_std (map snd (sue_counts m)) / np_mean (map snd (sue_counts m)))"
proof -
  from calculate_entry[OF assms]
  have ne: "group_counts df x \<noteq> []" and m: "m = present_metrics df x" by simp_all
  from group_counts_mean_pos[OF ne] show ?thesis
    by (simp add: m present_counts present_fields)
qed

theorem cv_is_std_over_mean_witness:
  "\<exists>ms m. calculate_load_balance_metrics df_two = Inr ms \<and> (Some 1, m) \<in> set ms
     \<and> np_mean (map snd (sue_counts m)) \<noteq> 0
     \<and> cv m = np_std (map snd (sue_counts m)) / np_mean (map snd (sue_counts m))
     \<and> cv m = 1 / 3"
proof -
  let ?ms = "[(Some 0, present_metrics df_two (Some 0)), (Some 1, present_metrics df_two (Some 1))]"
  let ?m = "present_metrics df_two (Some 1)"
  have c: "calculate_load_balance_metrics df_two = Inr ?ms" by (rule calculate_df_two)
  have i: "(Some 1, ?m) \<in> set ?ms" by simp
  have n: "np_mean (map snd (sue_counts ?m)) \<noteq> 0"
    unfolding sue_counts_df_two np_mean_1_2 by simp
  from cv_is_std_over_mean[OF c i] n
  have e: "cv ?m = np_std (map snd (sue_counts ?m)) / np_mean (map snd (sue_counts ?m))" by simp
  then have v: "cv ?m = 1 / 3"
    unfolding sue_counts_df_two np_mean_1_2 np_std_1_2 by simp
  from c i n e v show ?thesis by blast
qed

subsection \<open>Max/min ratio\<close>

text \<open>
  Claim C4. For every local XPU with a metrics record, \<open>max_min_ratio\<close> is the largest
  per-target count divided by the smallest one, and infinite when the smallest count is
  \<open>0\<close>; whenever the smallest count is positive the ratio is a number that is at least
  \<open>1\<close>.
\<close>

theorem max_min_ratio_value:
  assumes "calculate_load_balance_metrics df = Inr ms" and "(x, m) \<in> set ms"
  shows "max_min_ratio m =
           (if Min (set (map snd (sue_counts m))) = 0 then PInf
            else Fin (real (Max (set (map snd (sue_counts m)))) / real (Min (set (map snd (sue_counts m))))))
         \<and> (0 < Min (set (map snd (sue_counts m))) \<longrightarrow>
              (\<exists>r. max_min_ratio m = Fin r \<and> 1 \<le> r))"
proof -
  from calculate_entry[OF assms]
  have ne: "group_counts df x \<noteq> []" and m: "m = present_metrics df x" by simp_all
  have pos: "0 < Min (set (group_counts df x))" by (rule group_counts_Min_pos[OF ne])
  from present_ratio_ge_1[OF ne] pos show ?thesis
    by (simp add: m present_counts present_fields)
qed

theorem max_min_ratio_value_witness:
  "\<exists>ms m. calculate_load_balance_metrics df_two = Inr ms \<and> (Some 1, m) \<in> set ms
     \<and> 0 < Min (set (map snd (sue_counts m)))
     \<and> max_min_ratio m = Fin 2
     \<and> (\<exists>r. max_min_ratio m = Fin r \<and> 1 \<le> r)"
proof -
  let ?ms = "[(Some 0, present_metrics df_two (Some 0)), (Some 1, present_metrics df_two (Some 1))]"
  let ?m = "present_metrics df_two (Some 1)"
  have c: "calculate_load_balance_metrics df_two = Inr ?ms" by (rule calculate_df_two)
  have i: "(Some 1, ?m) \<in> set ?ms" by simp
  have p: "0 < Min (set (map snd (sue_counts ?m)))" by (simp add: sue_counts_df_two)
  from max_min_ratio_value[OF c i] p
  have r: "\<exists>r. max_min_ratio ?m = Fin r \<and> 1 \<le> r" by blast
  from max_min_ratio_value[OF c i] p
  have v: "max_min_ratio ?m = Fin 2" by (simp add: sue_counts_df_two)
  from c i p v r show ?thesis by blast
qed

subsection \<open>Perfectly even groups\<close>

lemma sum_list_const:
  fixes xs :: "nat list"
  shows "\<forall>c \<in> set xs. c = k \<Longrightarrow> sum_list xs = length xs * k"
  by (induction xs) simp_all

lemma np_mean_const:
  assumes "xs \<noteq> []" and "\<forall>c \<in> set xs. c = k"
  shows "np_mean xs = real k"
  using assms(1) sum_list_const[OF assms(2)] by (simp add: np_mean_def)

lemma sum_list_zero:
  fixes f :: "nat \<Rightarrow> real"
  shows "\<forall>c \<in> set xs. f c = 0 \<Longrightarrow> sum_list (map f xs) = 0"
  by (induction xs) simp_all

lemma np_std_const:
  assumes "xs \<noteq> []" and "\<forall>c \<in> set xs. c = k"
  shows "np_std xs = 0"
proof -
  have "\<forall>c \<in> set xs. (real c - np_mean xs)\<^sup>2 = 0"
    using assms(2) by (simp add: np_mean_const[OF assms])
  then have "sum_list (map (\<lambda>x. (real x - np_mean xs)\<^sup>2) xs) = 0"
    by (rule sum_list_zero)
  then show ?thesis by (simp add: np_std_def)
qed

lemma set_const:
  assumes "xs \<noteq> []" and "\<forall>c \<in> set xs. c = k"
  shows "set xs = {k}"
proof -
  obtain y ys where "xs = y # ys" using assms(1) by (cases xs) auto
  with assms(2) show ?thesis by auto
qed

text \<open>
  Claim C5. For every local XPU with a metrics record whose per-target counts are all equal
  (to a value that is then positive; a single target is one such group), the coefficient of
  variation and the relative standard deviation are \<open>0\<close>, the max/min ratio is \<open>1\<close> and
  the overall fairness score is \<open>100\<close>.
\<close>

theorem equal_counts_perfect:
  assumes "calculate_load_balance_metrics df = Inr ms" and "(x, m) \<in> set ms"
    and "\<forall>c \<in> set (map snd (sue_counts m)). c = k"
  shows "cv m = 0 \<and> rsd m = 0 \<and> max_min_ratio m = Fin 1 \<and> overall_score m = 100"
proof -
  from calculate_entry[OF assms(1,2)]
  have ne: "group_counts df x \<noteq> []" and m: "m = present_metrics df x" by simp_all
  let ?c = "group_counts df x"
  have eq: "\<forall>c \<in> set ?c. c = k" using assms(3) by (simp only: m present_counts)
  have std: "np_std ?c = 0" by (rule np_std_const[OF ne eq])
  have st: "set ?c = {k}" by (rule set_const[OF ne eq])
  have "1 \<le> k" using group_counts_pos[of k df x] st by simp
  then have k: "real k \<noteq> 0" by simp
  have cv0: "cv m = 0" by (simp add: m present_fields std)
  have rsd0: "rsd m = 0" by (simp add: m present_fields std)
  have r1: "max_min_ratio m = Fin 1" using k by (simp add: m present_fields st)
  have "overall_score m = 100"
    by (simp add: overall_score_def cv_score_def rsd_score_def ratio_score_def cv0 rsd0 r1)
  with cv0 rsd0 r1 show ?thesis by simp
qed

theorem equal_counts_perfect_witness:
  "\<exists>ms m. calculate_load_balance_metrics df_fair = Inr ms \<and> (Some 1, m) \<in> set ms
     \<and> sue_counts m = [(10, 2), (11, 2), (12, 2)]
     \<and> (\<forall>c \<in> set (map snd (sue_counts m)). c = 2)
     \<and> cv m = 0 \<and> rsd m = 0 \<and> max_min_ratio m = Fin 1 \<and> overall_score m = 100"
proof -
  let ?ms = "[(Some 1, present_metrics df_fair (Some 1)), (Some 3, present_metrics df_fair (Some 3))]"
  let ?m = "present_metrics df_fair (Some 1)"
  have c: "calculate_load_balance_metrics df_fair = Inr ?ms" by (rule calculate_df_fair)
  have i: "(Some 1, ?m) \<in> set ?ms" by simp
  have s: "sue_counts ?m = [(10, 2), (11, 2), (12, 2)]" by (rule sue_counts_df_fair)
  have a: "\<forall>c \<in> set (map snd (sue_counts ?m)). c = 2" unfolding s by simp
  from equal_counts_perfect[OF c i a] c i s a show ?thesis by blast
qed

subsection \<open>Conservation of requests\<close>

lemma present_blank_one:
  "present_metrics df_blank_one (Some 1) =
     \<lparr> total_requests = 3, num_sues = 1, ideal_per_sue = 3, cv = 0,
       max_min_ratio = Fin 1, rsd = 0, sue_counts = [(5, 2)] \<rparr>"
proof -
  have g: "group_rows df_blank_one (Some 1) = df_blank_one"
    by (simp add: group_rows_def df_blank_one_def row_def row_blank_sue_def)
  have v: "value_counts_sort_index (map SueId df_blank_one) = [(5, 2)]"
    by (simp add: value_counts_sort_index_def dropna_def df_blank_one_def row_def row_blank_sue_def)
  have c: "group_counts df_blank_one (Some 1) = [2]" by (simp add: group_counts_def g v)
  have l: "length df_blank_one = 3" by (simp add: df_blank_one_def)
  have s: "np_std [2] = 0" by (rule np_std_const[of _ 2]) simp_all
  have a: "np_mean [2] = 2" by (simp add: np_mean_def)
  show ?thesis unfolding present_metrics_def c g v l s a by simp
qed

lemma calculate_blank_one:
  "calculate_load_balance_metrics df_blank_one
     = Inr [(Some 1, present_metrics df_blank_one (Some 1))]"
proof -
  have i: "LocalXpuId ` set df_blank_one = {Some 1}"
    by (auto simp: df_blank_one_def row_def row_blank_sue_def)
  have l: "local_xpus df_blank_one = [Some 1]"
    by (simp add: local_xpus_def df_blank_one_def row_def row_blank_sue_def)
  have c: "group_counts df_blank_one (Some 1) \<noteq> []"
    by (simp add: group_counts_def group_rows_def value_counts_sort_index_def dropna_def
        df_blank_one_def row_def row_blank_sue_def)
  show ?thesis by (simp add: calculate_eq i l c)
qed

text \<open>
  Claim C2, as stated, fails on a data frame with a blank target cell: for the three rows
  of local XPU 1 with targets 5, blank and 5, \<open>total_requests\<close> is \<open>3\<close>, the number of
  rows, and the only count is \<open>2\<close>.
\<close>

theorem conservation_counterexample:
  "calculate_load_balance_metrics df_blank_one =
     Inr [(Some 1, \<lparr> total_requests = 3, num_sues = 1, ideal_per_sue = 3, cv = 0,
                     max_min_ratio = Fin 1, rsd = 0, sue_counts = [(5, 2)] \<rparr>)]
   \<and> sum_list (map snd [(5::int, 2::nat)]) \<noteq> 3"
  by (simp add: calculate_blank_one present_blank_one)

text \<open>
  Claim C2, amended. For every data frame and every local XPU with a metrics record, the
  per-target counts of the record add up to the number of rows of the local XPU whose
  target cell is not blank; \<open>total_requests\<close> is the number of all its rows. So the sum is
  never more than \<open>total_requests\<close>, and it is \<open>total_requests\<close> exactly when no row of the
  local XPU has a blank target cell.
\<close>

theorem conservation:
  assumes "calculate_load_balance_metrics df = Inr ms" and "(x, m) \<in> set ms"
  shows "sum_list (map snd (sue_counts m))
           = length (filter (\<lambda>r. cell_eq (LocalXpuId r) x \<and> SueId r \<noteq> None) df)
       \<and> total_requests m = length (filter (\<lambda>r. cell_eq (LocalXpuId r) x) df)
       \<and> sum_list (map snd (sue_counts m)) \<le> total_requests m
       \<and> (sum_list (map snd (sue_counts m)) = total_requests m
            \<longleftrightarrow> (\<forall>r \<in> set df. cell_eq (LocalXpuId r) x \<longrightarrow> SueId r \<noteq> None))"
proof -
  from calculate_entry[OF assms] have m: "m = present_metrics df x" by simp
  have s: "sum_list (map snd (sue_counts m)) = length (counted_rows df x)"
    by (simp add: m present_counts group_counts_sum)
  have t: "total_requests m = length (group_rows df x)" by (simp add: m present_fields)
  have c: "counted_rows df x = filter (\<lambda>r. cell_eq (LocalXpuId r) x \<and> SueId r \<noteq> None) df"
    by (simp add: counted_rows_def group_rows_def conj_commute)
  have a: "(\<forall>r \<in> set (group_rows df x). SueId r \<noteq> None)
             \<longleftrightarrow> (\<forall>r \<in> set df. cell_eq (LocalXpuId r) x \<longrightarrow> SueId r \<noteq> None)"
    by (auto simp: group_rows_def)
  show ?thesis
    unfolding s t using length_counted_le[of df x] counted_all[of df x]
    by (simp only: c[symmetric] a group_rows_def[symmetric])
qed

theorem conservation_witness:
  "\<exists>ms m. calculate_load_balance_metrics df_two = Inr ms \<and> (Some 1, m) \<in> set ms
     \<and> (\<forall>r \<in> set df_two. cell_eq (LocalXpuId r) (Some 1) \<longrightarrow> SueId r \<noteq> None)
     \<and> sue_counts m = [(5, 1), (7, 2)] \<and> total_requests m = 3
     \<and> sum_list (map snd (sue_counts m)) = total_requests m"
proof -
  let ?ms = "[(Some 0, present_metrics df_two (Some 0)), (Some 1, present_metrics df_two (Some 1))]"
  let ?m = "present_metrics df_two (Some 1)"
  have c: "calculate_load_balance_metrics df_two = Inr ?ms" by (rule calculate_df_two)
  have i: "(Some 1, ?m) \<in> set ?ms" by simp
  have n: "\<forall>r \<in> set df_two. cell_eq (LocalXpuId r) (Some 1) \<longrightarrow> SueId r \<noteq> None"
    by (simp add: df_two_def row_def)
  have s: "sue_counts ?m = [(5, 1), (7, 2)]" by (simp add: present_metrics_def counts_df_two)
  have t: "total_requests ?m = 3" by (simp add: present_fields group_rows_df_two)
  from conservation[OF c i] n
  have e: "sum_list (map snd (sue_counts ?m)) = total_requests ?m" by blast
  show ?thesis
  proof (intro exI conjI)
    show "calculate_load_balance_metrics df_two = Inr ?ms" by (rule c)
    show "(Some 1, ?m) \<in> set ?ms" by (rule i)
    show "\<forall>r \<in> set df_two. cell_eq (LocalXpuId r) (Some 1) \<longrightarrow> SueId r \<noteq> None" by (rule n)
    show "sue_counts ?m = [(5, 1), (7, 2)]" by (rule s)
    show "total_requests ?m = 3" by (rule t)
    show "sum_list (map snd (sue_counts ?m)) = total_requests ?m" by (rule e)
  qed
qed

subsection \<open>Relative standard deviation\<close>

lemma present_blank_uneven:
  "present_metrics df_blank_uneven (Some 1) =
     \<lparr> total_requests = 4, num_sues = 2, ideal_per_sue = 2, cv = 1 / 3,
       max_min_ratio = Fin 2, rsd = 25, sue_counts = [(5, 2), (7, 1)] \<rparr>"
proof -
  have g: "group_rows df_blank_uneven (Some 1) = df_blank_uneven"
    by (simp add: group_rows_def df_blank_uneven_def row_def row_blank_sue_def)
  have v: "value_counts_sort_index (map SueId df_blank_uneven) = [(5, 2), (7, 1)]"
    by (simp add: value_counts_sort_index_def dropna_def df_blank_uneven_def row_def
        row_blank_sue_def)
  have c: "group_counts df_blank_uneven (Some 1) = [2, 1]" by (simp add: group_counts_def g v)
  have l: "length df_blank_uneven = 4" by (simp add: df_blank_uneven_def)
  have a: "np_mean [2, 1] = 3 / 2" by (simp add: np_mean_def)
  have "np_std [2, 1] = sqrt ((1 / 2)\<^sup>2)"
    unfolding np_std_def a by (simp add: power2_eq_square)
  then have s: "np_std [2, 1] = 1 / 2" by (simp del: power_divide)
  show ?thesis unfolding present_metrics_def c g v l s a by simp
qed

lemma calculate_blank_uneven:
  "calculate_load_balance_metrics df_blank_uneven
     = Inr [(Some 1, present_metrics df_blank_uneven (Some 1))]"
proof -
  have i: "LocalXpuId ` set df_blank_uneven = {Some 1}"
    by (auto simp: df_blank_uneven_def row_def row_blank_sue_def)
  have l: "local_xpus df_blank_uneven = [Some 1]"
    by (simp add: local_xpus_def df_blank_uneven_def row_def row_blank_sue_def)
  have c: "group_counts df_blank_uneven (Some 1) \<noteq> []"
    by (simp add: group_counts_def group_rows_def value_counts_sort_index_def dropna_def
        df_blank_uneven_def row_def row_blank_sue_def)
  show ?thesis by (simp add: calculate_eq i l c)
qed

lemma group_counts_mean:
  "np_mean (group_counts df k) = real (length (counted_rows df k)) / real (length (group_counts df k))"
  by (simp add: np_mean_def group_counts_sum)

text \<open>
  Claim C9, as stated, fails on a data frame with a blank target cell: for the four rows of
  local XPU 1 with targets 5, 5, 7 and blank, \<open>total_requests\<close> is \<open>4\<close> and the counts are
  \<open>2\<close> and \<open>1\<close>, so the ideal share is \<open>2\<close> while the mean of the counts is \<open>3/2\<close>; the
  relative standard deviation is \<open>25\<close> and \<open>100\<close> times the coefficient of variation is
  \<open>100/3\<close>.
\<close>

theorem rsd_is_100_cv_counterexample:
  "calculate_load_balance_metrics df_blank_uneven =
     Inr [(Some 1, \<lparr> total_requests = 4, num_sues = 2, ideal_per_sue = 2, cv = 1 / 3,
                     max_min_ratio = Fin 2, rsd = 25, sue_counts = [(5, 2), (7, 1)] \<rparr>)]
   \<and> (25 :: real) \<noteq> 100 * (1 / 3)"
  by (simp add: calculate_blank_uneven present_blank_uneven)

text \<open>
  Claim C9, amended. For every local XPU with a metrics record and \<open>total_requests > 0\<close>
  whose per-target counts add up to \<open>total_requests\<close> (no row of the local XPU has a blank
  target cell), the relative standard deviation is exactly \<open>100\<close> times the coefficient of
  variation, because the mean of the per-target counts is then \<open>ideal_per_sue\<close>.
\<close>

theorem rsd_is_100_cv:
  assumes "calculate_load_balance_metrics df = Inr ms" and "(x, m) \<in> set ms"
    and "0 < total_requests m"
    and "sum_list (map snd (sue_counts m)) = total_requests m"
  shows "rsd m = 100 * cv m \<and> np_mean (map snd (sue_counts m)) = ideal_per_sue m"
proof -
  from calculate_entry[OF assms(1,2)] have m: "m = present_metrics df x" by simp
  from assms(4) have "length (counted_rows df x) = length (group_rows df x)"
    by (simp add: m present_counts present_fields group_counts_sum)
  then show ?thesis
    by (simp add: m present_counts present_fields group_counts_mean)
qed

theorem rsd_is_100_cv_witness:
  "\<exists>ms m. calculate_load_balance_metrics df_two = Inr ms \<and> (Some 1, m) \<in> set ms
     \<and> 0 < total_requests m
     \<and> sum_list (map snd (sue_counts m)) = total_requests m
     \<and> rsd m = 100 * cv m
     \<and> np_mean (map snd (sue_counts m)) = ideal_per_sue m"
proof -
  let ?ms = "[(Some 0, present_metrics df_two (Some 0)), (Some 1, present_metrics df_two (Some 1))]"
  let ?m = "present_metrics df_two (Some 1)"
  have c: "calculate_load_balance_metrics df_two = Inr ?ms" by (rule calculate_df_two)
  have i: "(Some 1, ?m) \<in> set ?ms" by simp
  have t: "0 < total_requests ?m" by (simp add: present_fields group_rows_df_two)
  have s: "sum_list (map snd (sue_counts ?m)) = total_requests ?m"
    unfolding sue_counts_df_two by (simp add: present_fields group_rows_df_two)
  from rsd_is_100_cv[OF c i t s] c i t s show ?thesis by blast
qed

subsection \<open>The guards of the metrics calculator\<close>

lemma present_guards:
  assumes ne: "group_counts df k \<noteq> []"
  shows "sue_counts (present_metrics df k) \<noteq> []
       \<and> (\<forall>c \<in> set (map snd (sue_counts (present_metrics df k))). 1 \<le> c)
       \<and> 0 < total_requests (present_metrics df k)
       \<and> 0 < num_sues (present_metrics df k)
       \<and> 0 < np_mean (map snd (sue_counts (present_metrics df k)))
       \<and> (\<exists>mn. np_min (map snd (sue_counts (present_metrics df k))) = Inr mn \<and> 0 < mn)
       \<and> 0 < ideal_per_sue (present_metrics df k)
       \<and> ideal_per_sue (present_metrics df k) = real (total_requests (present_metrics df k)) / real (num_sues (present_metrics df k))
       \<and> cv (present_metrics df k) = np_std (map snd (sue_counts (present_metrics df k))) / np_mean (map snd (sue_counts (present_metrics df k)))
       \<and> rsd (present_metrics df k) = np_std (map snd (sue_counts (present_metrics df k))) / ideal_per_sue (present_metrics df k) * 100
       \<and> (\<exists>r. max_min_ratio (present_metrics df k) = Fin r)"
proof (intro conjI)
  let ?m = "present_metrics df k"
  let ?c = "group_counts df k"
  have rows: "group_rows df k \<noteq> []" by (rule group_rows_nonempty[OF ne])
  show "sue_counts ?m \<noteq> []" using ne present_counts[of df k] by auto
  show "\<forall>c \<in> set (map snd (sue_counts ?m)). 1 \<le> c"
    unfolding present_counts using group_counts_pos by blast
  show "0 < total_requests ?m" using rows by (simp add: present_fields)
  show "0 < num_sues ?m" using ne by (simp add: present_fields)
  show "0 < np_mean (map snd (sue_counts ?m))"
    unfolding present_counts by (rule group_counts_mean_pos[OF ne])
  show "\<exists>mn. np_min (map snd (sue_counts ?m)) = Inr mn \<and> 0 < mn"
    unfolding present_counts using np_min_nonempty[OF ne] group_counts_Min_pos[OF ne] by simp
  show "0 < ideal_per_sue ?m" using ne rows by (simp add: present_fields)
  show "ideal_per_sue ?m = real (total_requests ?m) / real (num_sues ?m)"
    by (simp add: present_fields)
  show "cv ?m = np_std (map snd (sue_counts ?m)) / np_mean (map snd (sue_counts ?m))"
    unfolding present_counts by (simp add: present_fields)
  show "rsd ?m = np_std (map snd (sue_counts ?m)) / ideal_per_sue ?m * 100"
    unfolding present_counts by (simp add: present_fields)
  show "\<exists>r. max_min_ratio ?m = Fin r" by (simp add: present_fields)
qed

lemma group_blank_group:
  "group_rows df_blank_group (Some 1) = [row_blank_sue 1 2 0]"
  "group_counts df_blank_group (Some 1) = []"
  by (simp_all add: group_counts_def group_rows_def value_counts_sort_index_def dropna_def
      df_blank_group_def row_def row_blank_sue_def)

lemma calculate_blank_group: "calculate_load_balance_metrics df_blank_group = Inl ValueError"
proof -
  have "Some 1 \<in> LocalXpuId ` set df_blank_group"
    by (simp add: df_blank_group_def row_def row_blank_sue_def)
  then show ?thesis using group_blank_group(2) by (auto simp: calculate_eq)
qed

text \<open>
  Claim C10, as stated, fails on a data frame with blank target cells: in the frame of the
  lines \<open>1,2,0,\<close> and \<open>0,2,0,5\<close> local XPU 1 has one row and no counted target, so
  \<open>num_sues\<close> is \<open>0\<close>, the test \<open>np.mean(actual_counts) > 0\<close> is false, and no metric is
  reported because \<open>np.min\<close> raises on the empty array.
\<close>

theorem guards_counterexample:
  "group_rows df_blank_group (Some 1) = [row_blank_sue 1 2 0]
   \<and> group_counts df_blank_group (Some 1) = []
   \<and> \<not> 0 < np_mean (group_counts df_blank_group (Some 1))
   \<and> np_min (group_counts df_blank_group (Some 1)) = Inl ValueError
   \<and> xpu_metrics df_blank_group (Some 1) = Inl ValueError
   \<and> calculate_load_balance_metrics df_blank_group = Inl ValueError"
  by (simp add: group_blank_group calculate_blank_group xpu_metrics_empty np_mean_def)

text \<open>
  Claim C10, amended. Whenever the metrics calculator returns a result, which it does for
  every data frame without blank local XPU and target cells, then for every local XPU in
  the result: the group has rows and at least one counted target, every per-target count
  is at least \<open>1\<close>, so the number of targets, the mean and the minimum of the counts and
  the ideal share are positive; every guarded division takes the branch that divides, and
  the max/min ratio is a finite number.
\<close>

theorem guards_hold_when_returned:
  "(\<forall>ms. calculate_load_balance_metrics df = Inr ms \<longrightarrow>
     (\<forall>(x, m) \<in> set ms.
         sue_counts m \<noteq> []
       \<and> (\<forall>c \<in> set (map snd (sue_counts m)). 1 \<le> c)
       \<and> 0 < total_requests m
       \<and> 0 < num_sues m
       \<and> 0 < np_mean (map snd (sue_counts m))
       \<and> (\<exists>mn. np_min (map snd (sue_counts m)) = Inr mn \<and> 0 < mn)
       \<and> 0 < ideal_per_sue m
       \<and> ideal_per_sue m = real (total_requests m) / real (num_sues m)
       \<and> cv m = np_std (map snd (sue_counts m)) / np_mean (map snd (sue_counts m))
       \<and> rsd m = np_std (map snd (sue_counts m)) / ideal_per_sue m * 100
       \<and> (\<exists>r. max_min_ratio m = Fin r)))
   \<and> ((\<forall>r \<in> set df. LocalXpuId r \<noteq> None \<and> SueId r \<noteq> None) \<longrightarrow>
        (\<exists>ms. calculate_load_balance_metrics df = Inr ms))"
proof (intro conjI allI impI)
  fix ms assume c: "calculate_load_balance_metrics df = Inr ms"
  show "\<forall>p \<in> set ms. case p of (x, m) \<Rightarrow>
         sue_counts m \<noteq> []
       \<and> (\<forall>c \<in> set (map snd (sue_counts m)). 1 \<le> c)
       \<and> 0 < total_requests m
       \<and> 0 < num_sues m
       \<and> 0 < np_mean (map snd (sue_counts m))
       \<and> (\<exists>mn. np_min (map snd (sue_counts m)) = Inr mn \<and> 0 < mn)
       \<and> 0 < ideal_per_sue m
       \<and> ideal_per_sue m = real (total_requests m) / real (num_sues m)
       \<and> cv m = np_std (map snd (sue_counts m)) / np_mean (map snd (sue_counts m))
       \<and> rsd m = np_std (map snd (sue_counts m)) / ideal_per_sue m * 100
       \<and> (\<exists>r. max_min_ratio m = Fin r)"
  proof
    fix p assume pm: "p \<in> set ms"
    obtain x m where p: "p = (x, m)" by (cases p)
    have i: "(x, m) \<in> set ms" using pm p by simp
    from calculate_entry[OF c i]
    have ne: "group_counts df x \<noteq> []" and m: "m = present_metrics df x" by simp_all
    show "case p of (x, m) \<Rightarrow>
         sue_counts m \<noteq> []
       \<and> (\<forall>c \<in> set (map snd (sue_counts m)). 1 \<le> c)
       \<and> 0 < total_requests m
       \<and> 0 < num_sues m
       \<and> 0 < np_mean (map snd (sue_counts m))
       \<and> (\<exists>mn. np_min (map snd (sue_counts m)) = Inr mn \<and> 0 < mn)
       \<and> 0 < ideal_per_sue m
       \<and> ideal_per_sue m = real (total_requests m) / real (num_sues m)
       \<and> cv m = np_std (map snd (sue_counts m)) / np_mean (map snd (sue_counts m))
       \<and> rsd m = np_std (map snd (sue_counts m)) / ideal_per_sue m * 100
       \<and> (\<exists>r. max_min_ratio m = Fin r)"
      unfolding p prod.case m by (rule present_guards[OF ne])
  qed
next
  assume "\<forall>r \<in> set df. LocalXpuId r \<noteq> None \<and> SueId r \<noteq> None"
  then show "\<exists>ms. calculate_load_balance_metrics df = Inr ms" by (rule calculate_returns)
qed

lemma df_two_no_blank: "\<forall>r \<in> set df_two. LocalXpuId r \<noteq> None \<and> SueId r \<noteq> None"
  by (auto simp: df_two_def row_def)

theorem guards_hold_when_returned_witness:
  "None \<notin> LocalXpuId ` set df_two \<and> None \<notin> SueId ` set df_two
   \<and> (\<exists>ms m. calculate_load_balance_metrics df_two = Inr ms \<and> (Some 1, m) \<in> set ms
     \<and> map snd (sue_counts m) = [1, 2]
     \<and> np_min (map snd (sue_counts m)) = Inr 1
     \<and> 0 < np_mean (map snd (sue_counts m))
     \<and> 0 < ideal_per_sue m
     \<and> cv m = np_std (map snd (sue_counts m)) / np_mean (map snd (sue_counts m))
     \<and> rsd m = np_std (map snd (sue_counts m)) / ideal_per_sue m * 100
     \<and> (\<exists>r. max_min_ratio m = Fin r))"
proof -
  let ?ms = "[(Some 0, present_metrics df_two (Some 0)), (Some 1, present_metrics df_two (Some 1))]"
  let ?m = "present_metrics df_two (Some 1)"
  from guards_hold_when_returned[of df_two] df_two_no_blank
  obtain ms where c0: "calculate_load_balance_metrics df_two = Inr ms" by blast
  then have ms: "ms = ?ms" by (simp add: calculate_df_two)
  have c: "calculate_load_balance_metrics df_two = Inr ?ms" using c0 ms by simp
  have i: "(Some 1, ?m) \<in> set ?ms" by simp
  have s: "map snd (sue_counts ?m) = [1, 2]" by (rule sue_counts_df_two)
  have n: "np_min (map snd (sue_counts ?m)) = Inr 1" unfolding s by simp
  from guards_hold_when_returned[of df_two] c i
  have q: "0 < np_mean (map snd (sue_counts ?m))
     \<and> 0 < ideal_per_sue ?m
     \<and> cv ?m = np_std (map snd (sue_counts ?m)) / np_mean (map snd (sue_counts ?m))
     \<and> rsd ?m = np_std (map snd (sue_counts ?m)) / ideal_per_sue ?m * 100
     \<and> (\<exists>r. max_min_ratio ?m = Fin r)"
    by fastforce
  show ?thesis
  proof (intro exI conjI)
    show "None \<notin> LocalXpuId ` set df_two" using df_two_no_blank by force
    show "None \<notin> SueId ` set df_two" using df_two_no_blank by force
    show "calculate_load_balance_metrics df_two = Inr ?ms" by (rule c)
    show "(Some 1, ?m) \<in> set ?ms" by (rule i)
    show "map snd (sue_counts ?m) = [1, 2]" by (rule s)
    show "np_min (map snd (sue_counts ?m)) = Inr 1" by (rule n)
    show "0 < np_mean (map snd (sue_counts ?m))" using q by blast
    show "0 < ideal_per_sue ?m" using q by blast
    show "cv ?m = np_std (map snd (sue_counts ?m)) / np_mean (map snd (sue_counts ?m))"
      using q by blast
    show "rsd ?m = np_std (map snd (sue_counts ?m)) / ideal_per_sue ?m * 100"
      using q by blast
    show "max_min_ratio ?m = Fin (2 / 1)" by (simp add: present_fields group_counts_df_two)
  qed
qed

subsection \<open>One record per local XPU, whatever the order of the rows\<close>

lemma sort_remdups_mset:
  fixes xs ys :: "'a :: linorder list"
  assumes "mset xs = mset ys"
  shows "sort (remdups xs) = sort (remdups ys)"
proof -
  have "set xs = set ys" using assms by (rule mset_eq_setD)
  then have "sorted_list_of_set (set xs) = sorted_list_of_set (set ys)" by simp
  then show ?thesis by (simp only: sorted_list_of_set_sort_remdups)
qed

lemma count_list_mset:
  assumes "mset xs = mset ys"
  shows "count_list xs = count_list ys"
proof
  fix v
  have "count (mset xs) v = count (mset ys) v" using assms by simp
  then show "count_list xs v = count_list ys v" by (simp only: count_mset)
qed

lemma dropna_mset:
  assumes "mset xs = mset ys"
  shows "mset (dropna xs) = mset (dropna ys)"
proof -
  have "mset (dropna xs) = image_mset the (filter_mset (\<lambda>c. c \<noteq> None) (mset xs))"
    by (simp add: dropna_def)
  also have "\<dots> = image_mset the (filter_mset (\<lambda>c. c \<noteq> None) (mset ys))"
    by (simp only: assms)
  also have "\<dots> = mset (dropna ys)" by (simp add: dropna_def)
  finally show ?thesis .
qed

lemma vc_mset:
  assumes "mset xs = mset ys"
  shows "value_counts_sort_index xs = value_counts_sort_index ys"
  unfolding value_counts_sort_index_def
  by (simp only: sort_remdups_mset[OF dropna_mset[OF assms]]
      count_list_mset[OF dropna_mset[OF assms]])

lemma group_rows_mset:
  assumes "mset df' = mset df"
  shows "mset (group_rows df' k) = mset (group_rows df k)"
  unfolding group_rows_def by (simp only: mset_filter assms)

lemma group_rows_length_mset:
  assumes "mset df' = mset df"
  shows "length (group_rows df' k) = length (group_rows df k)"
  using group_rows_mset[OF assms, of k] by (rule mset_eq_length)

lemma group_vc_mset:
  assumes "mset df' = mset df"
  shows "value_counts_sort_index (map SueId (group_rows df' k))
           = value_counts_sort_index (map SueId (group_rows df k))"
proof (rule vc_mset)
  have "image_mset SueId (mset (group_rows df' k)) = image_mset SueId (mset (group_rows df k))"
    by (simp only: group_rows_mset[OF assms])
  then show "mset (map SueId (group_rows df' k)) = mset (map SueId (group_rows df k))"
    by (simp only: mset_map)
qed

lemma group_counts_mset:
  assumes "mset df' = mset df"
  shows "group_counts df' k = group_counts df k"
  unfolding group_counts_def by (simp only: group_vc_mset[OF assms])

lemma present_metrics_mset:
  assumes "mset df' = mset df"
  shows "present_metrics df' k = present_metrics df k"
  unfolding present_metrics_def
  by (simp only: group_counts_mset[OF assms] group_vc_mset[OF assms]
      group_rows_length_mset[OF assms])

lemma local_xpus_mset:
  assumes "mset df' = mset df"
  shows "local_xpus df' = local_xpus df"
  unfolding local_xpus_def
proof (rule sort_remdups_mset)
  have "image_mset LocalXpuId (mset df') = image_mset LocalXpuId (mset df)"
    by (simp only: assms)
  then show "mset (map LocalXpuId df') = mset (map LocalXpuId df)" by (simp only: mset_map)
qed

text \<open>
  What the calculator does do: whether it returns and what it returns is the same for every
  permutation of the rows, and a result has exactly one record per local XPU of the input.
\<close>

lemma calculate_permutation:
  assumes "mset df' = mset df"
  shows "calculate_load_balance_metrics df' = calculate_load_balance_metrics df"
proof -
  have "set df' = set df" using assms by (rule mset_eq_setD)
  then show ?thesis
    unfolding calculate_eq
    by (simp only: local_xpus_mset[OF assms] present_metrics_mset[OF assms]
        group_counts_mset[OF assms])
qed

lemma calculate_one_record_each:
  assumes "calculate_load_balance_metrics df = Inr ms"
  shows "distinct (map fst ms) \<and> set (map fst ms) = LocalXpuId ` set df"
  unfolding calculate_keys[OF assms] by (simp add: distinct_local_xpus set_local_xpus)

text \<open>
  Claim C6 asks for one metrics record per local XPU present in the input, for every input
  table. On the data frame of the lines \<open>1,2,0,\<close> and \<open>0,2,0,5\<close>, which the loader accepts,
  the local XPUs present are \<open>0\<close> and \<open>1\<close> and the calculator returns no record at all: for
  local XPU 1 the guards of the ideal share and of the coefficient of variation take their
  fallback, and then \<open>np.min\<close> raises \<open>ValueError\<close> on the empty array of counts.
\<close>

theorem one_record_failing_input:
  "LocalXpuId ` set df_blank_group = {Some 0, Some 1}
   \<and> calculate_load_balance_metrics df_blank_group = Inl ValueError"
proof
  show "LocalXpuId ` set df_blank_group = {Some 0, Some 1}"
    by (auto simp: df_blank_group_def row_def row_blank_sue_def)
  show "calculate_load_balance_metrics df_blank_group = Inl ValueError"
    by (rule calculate_blank_group)
qed

section \<open>Properties of the packet-loss computation\<close>

lemma scan_log_switch_loss: "scan_log example_digits log_switch_loss = (10, 7, 0)"
  unfolding log_switch_loss_def by code_simp

lemma scan_log_receiver_drop: "scan_log example_digits log_receiver_drop = (10, 8, 1)"
  unfolding log_receiver_drop_def by code_simp

lemma scan_log_arabic_digit: "scan_log example_digits log_arabic_digit = (3, 0, 0)"
  unfolding log_arabic_digit_def by code_simp

text \<open>
  Claim C7. With the totals read from the log, and something sent: when more was sent than
  received and the explicit dropped count is \<open>0\<close>, the dropped count becomes the difference
  of sent and received; otherwise it stays the explicit count. The receiver drop rate and the
  total loss rate are computed from the dropped count after this replacement, and the
  replaced count is the one returned. This holds for every table of decimal digits.
\<close>

theorem switch_loss_fallback:
  assumes "scan_log dv lines = (sent, received, dropped0)" and "sent \<noteq> 0"
  shows "calculate_packet_loss dv lines =
           (let dropped = (if sent > received \<and> dropped0 = 0
                           then sent - received else dropped0)
            in Inr (sent, received, dropped,
                    real_of_int (sent - received) / real_of_int sent * 100,
                    (if received = 0 then 0
                     else real_of_int dropped / real_of_int received * 100),
                    real_of_int (sent - (received - dropped)) / real_of_int sent * 100))"
  using assms by (simp add: calculate_packet_loss_def Let_def)

theorem switch_loss_fallback_witness:
  "scan_log example_digits log_switch_loss = (10, 7, 0)
   \<and> calculate_packet_loss example_digits log_switch_loss = Inr (10, 7, 3, 30, 300 / 7, 60)
   \<and> scan_log example_digits log_receiver_drop = (10, 8, 1)
   \<and> calculate_packet_loss example_digits log_receiver_drop = Inr (10, 8, 1, 20, 25 / 2, 30)
   \<and> scan_log example_digits log_arabic_digit = (3, 0, 0)
   \<and> calculate_packet_loss example_digits log_arabic_digit = Inr (3, 0, 3, 100, 0, 200)"
proof -
  have n: "(10::int) \<noteq> 0" and n3: "(3::int) \<noteq> 0" by simp_all
  from switch_loss_fallback[OF scan_log_switch_loss n]
  have a: "calculate_packet_loss example_digits log_switch_loss = Inr (10, 7, 3, 30, 300 / 7, 60)"
    by simp
  from switch_loss_fallback[OF scan_log_receiver_drop n]
  have b: "calculate_packet_loss example_digits log_receiver_drop = Inr (10, 8, 1, 20, 25 / 2, 30)"
    by simp
  from switch_loss_fallback[OF scan_log_arabic_digit n3]
  have c: "calculate_packet_loss example_digits log_arabic_digit = Inr (3, 0, 3, 100, 0, 200)"
    by simp
  from a b c scan_log_switch_loss scan_log_receiver_drop scan_log_arabic_digit
  show ?thesis by simp
qed

section \<open>Properties of chart and report generation\<close>

lemma try_body_charts:
  "try_body render [BoxPlot, Heatmap, FairnessChart] =
     (case render BoxPlot of
        Some e \<Rightarrow> [ErrorPrinted e]
      | None \<Rightarrow>
         (case render Heatmap of
            Some e \<Rightarrow> [Saved BoxPlot, ErrorPrinted e]
          | None \<Rightarrow>
             (case render FairnessChart of
                Some e \<Rightarrow> [Saved BoxPlot, Saved Heatmap, ErrorPrinted e]
              | None \<Rightarrow> [Saved BoxPlot, Saved Heatmap, Saved FairnessChart])))"
  by (simp split: option.splits)

text \<open>
  Claim C8, as stated: a failure in one chart does not prevent the generation of the other
  charts. It fails when the box plot raises: the heatmap and the fairness chart, which would
  both render, are never attempted; only the error is printed and the report written.
\<close>

theorem chart_failure_counterexample:
  "box_plot_fails Heatmap = None \<and> box_plot_fails FairnessChart = None
   \<and> main_outputs box_plot_fails = Inr [ErrorPrinted (Exception ''boxplot''), Saved Report]
   \<and> Saved Heatmap \<notin> set [ErrorPrinted (Exception ''boxplot''), Saved Report]
   \<and> Saved FairnessChart \<notin> set [ErrorPrinted (Exception ''boxplot''), Saved Report]"
  by (simp add: main_outputs_def)

text \<open>
  Claim C8, amended. When the report can be written, the run always ends with the report,
  whatever the charts do. The charts saved are those before the first chart that raises;
  that chart's exception is the only one printed, and the charts after it are not rendered.
\<close>

theorem chart_failure_keeps_report:
  assumes "render Report = None"
  shows "\<exists>evs. main_outputs render = Inr evs
           \<and> Saved Report \<in> set evs
           \<and> (\<forall>a \<in> set [BoxPlot, Heatmap, FairnessChart].
                 Saved a \<in> set evs \<longleftrightarrow>
                 a \<in> set (takeWhile (\<lambda>b. render b = None) [BoxPlot, Heatmap, FairnessChart]))
           \<and> (\<forall>e. ErrorPrinted e \<in> set evs \<longleftrightarrow>
                 (case dropWhile (\<lambda>b. render b = None) [BoxPlot, Heatmap, FairnessChart] of
                    [] \<Rightarrow> False
                  | a # rest \<Rightarrow> render a = Some e))"
proof -
  let ?evs = "try_body render [BoxPlot, Heatmap, FairnessChart] @ [Saved Report]"
  have m: "main_outputs render = Inr ?evs"
    using assms by (simp add: main_outputs_def del: try_body.simps)
  have r: "Saved Report \<in> set ?evs" by simp
  have s: "\<forall>a \<in> set [BoxPlot, Heatmap, FairnessChart].
             Saved a \<in> set ?evs \<longleftrightarrow>
             a \<in> set (takeWhile (\<lambda>b. render b = None) [BoxPlot, Heatmap, FairnessChart])"
    unfolding try_body_charts by (auto split: option.splits)
  have e: "\<forall>e. ErrorPrinted e \<in> set ?evs \<longleftrightarrow>
             (case dropWhile (\<lambda>b. render b = None) [BoxPlot, Heatmap, FairnessChart] of
                [] \<Rightarrow> False
              | a # rest \<Rightarrow> render a = Some e)"
    unfolding try_body_charts by (auto split: option.splits)
  from m r s e show ?thesis by blast
qed

theorem chart_failure_keeps_report_witness:
  "heatmap_fails Report = None
   \<and> main_outputs heatmap_fails
       = Inr [Saved BoxPlot, ErrorPrinted (Exception ''heatmap''), Saved Report]
   \<and> Saved Report \<in> set [Saved BoxPlot, ErrorPrinted (Exception ''heatmap''), Saved Report]
   \<and> takeWhile (\<lambda>b. heatmap_fails b = None) [BoxPlot, Heatmap, FairnessChart] = [BoxPlot]"
proof -
  have h: "heatmap_fails Report = None" by simp
  from chart_failure_keeps_report[of heatmap_fails, OF h] obtain evs where
    "main_outputs heatmap_fails = Inr evs" and "Saved Report \<in> set evs" by blast
  then show ?thesis by (simp add: main_outputs_def)
qed

end
